theory Spec2Isabelle
  imports Complex_Main
begin

section \<open>Python values shared by the pipeline\<close>

text \<open>
  The exceptions of Python, pandas and geopandas that the modelled lines of
  \<^verbatim>\<open>neighborhoods_generation.py\<close> can raise. A raise is the left injection of a sum.
\<close>

datatype py_error = TypeError | KeyError | ValueError | IndexError | AttributeError | MergeError

text \<open>
  A Python dict with string keys whose order is kept: an association list, read with
  \<^const>\<open>map_of\<close>. \<^verbatim>\<open>d[k]\<close> raises KeyError on an absent key.
\<close>

type_synonym 'v pydict = "(string \<times> 'v) list"

definition getitem :: "'v pydict \<Rightarrow> string \<Rightarrow> py_error + 'v" where
  "getitem d k = (case map_of d k of None \<Rightarrow> Inl KeyError | Some v \<Rightarrow> Inr v)"

definition setitem :: "'v pydict \<Rightarrow> string \<Rightarrow> 'v \<Rightarrow> 'v pydict" where
  "setitem d k v =
     (if k \<in> set (map fst d) then map (\<lambda>(k', v'). if k' = k then (k', v) else (k', v')) d
      else d @ [(k, v)])"

section \<open>The geography service: query\_census\_by\_geography, split\_counties\_and\_query\_census\<close>

text \<open>
  What \<^verbatim>\<open>requests.get(url); response.raise_for_status(); response.json()\<close> can do:
  deliver the decoded JSON object (of which only the list-valued members matter here), raise
  \<^verbatim>\<open>requests.exceptions.HTTPError\<close>, or raise another
  \<^verbatim>\<open>requests.exceptions.RequestException\<close> (connection failure, timeout, undecodable
  body). The service is a parameter of the model: a function from the URL to the outcome.
\<close>

datatype 'f fetch_result = Fetched "'f list pydict" | HTTPError | RequestException

definition sub_layer :: "nat pydict" where
  "sub_layer = [(''tract'', 0), (''block_group'', 1), (''block'', 2)]"

definition base_url :: string where
  "base_url = ''https://tigerweb.geo.census.gov/arcgis/rest/services/TIGERweb/Tracts_Blocks/MapServer/''"

definition quote :: string where
  "quote = [CHR 0x27]"

definition where_clause :: "string \<Rightarrow> string" where
  "where_clause county =
     ''COUNTY='' @ quote @ drop 2 county @ quote @ '' and STATE='' @ quote @ take 2 county @ quote"

definition layer_str :: "nat \<Rightarrow> string" where
  "layer_str n = (if n = 0 then ''0'' else if n = 1 then ''1'' else ''2'')"

definition census_url :: "string \<Rightarrow> nat \<Rightarrow> string" where
  "census_url county layer =
     base_url @ layer_str layer @ ''/query?where='' @ where_clause county
       @ ''&outFields=*&f=geojson''"

text \<open>
  \<^verbatim>\<open>query_census_by_geography(county, geography)\<close>. Both \<^verbatim>\<open>except\<close> branches set
  \<^verbatim>\<open>data = None\<close>; the \<^verbatim>\<open>print\<close> after the \<^verbatim>\<open>try\<close> statement evaluates
  \<^verbatim>\<open>len(data["features"])\<close> on every path, so subscripting \<^verbatim>\<open>None\<close> raises
  TypeError there, and a decoded object with no \<^verbatim>\<open>features\<close> member raises KeyError.
\<close>

definition query_census_by_geography ::
  "(string \<Rightarrow> 'f fetch_result) \<Rightarrow> string \<Rightarrow> string \<Rightarrow> py_error + 'f list pydict option" where
  "query_census_by_geography fetch county geography =
     (case getitem sub_layer geography of
        Inl e \<Rightarrow> Inl e
      | Inr layer \<Rightarrow>
          (let data = (case fetch (census_url county layer) of
                         Fetched d \<Rightarrow> Some d
                       | HTTPError \<Rightarrow> None
                       | RequestException \<Rightarrow> None)
           in case data of
                None \<Rightarrow> Inl TypeError
              | Some d \<Rightarrow> (case getitem d ''features'' of
                             Inl e \<Rightarrow> Inl e
                           | Inr _ \<Rightarrow> Inr data)))"

text \<open>
  The loop of \<^verbatim>\<open>split_counties_and_query_census\<close> over the county list, with the
  accumulated \<^verbatim>\<open>census_json\<close> passed along; an exception of the query leaves the loop.
\<close>

fun query_counties ::
  "(string \<Rightarrow> 'f fetch_result) \<Rightarrow> string \<Rightarrow> string list \<Rightarrow> 'f list pydict
     \<Rightarrow> py_error + 'f list pydict" where
  "query_counties fetch geography [] census_json = Inr census_json"
| "query_counties fetch geography (county # rest) census_json =
     (case query_census_by_geography fetch county geography of
        Inl e \<Rightarrow> Inl e
      | Inr None \<Rightarrow> query_counties fetch geography rest census_json
      | Inr (Some data) \<Rightarrow>
          (if census_json = [] then query_counties fetch geography rest data
           else (case getitem census_json ''features'' of
                   Inl e \<Rightarrow> Inl e
                 | Inr fs \<Rightarrow>
                     (case getitem data ''features'' of
                        Inl e \<Rightarrow> Inl e
                      | Inr gs \<Rightarrow>
                          query_counties fetch geography rest
                            (setitem census_json ''features'' (fs @ gs))))))"

definition split_counties_and_query_census ::
  "(string \<Rightarrow> 'f fetch_result) \<Rightarrow> string list \<Rightarrow> string \<Rightarrow> py_error + 'f list pydict" where
  "split_counties_and_query_census fetch county_list geography =
     (case query_counties fetch geography county_list [] of
        Inl e \<Rightarrow> Inl e
      | Inr census_json \<Rightarrow>
          (case getitem census_json ''features'' of
             Inl e \<Rightarrow> Inl e
           | Inr _ \<Rightarrow> Inr census_json))"

text \<open>A service that answers every county but Los Angeles (06037), for which it is down.\<close>

definition la_down :: "string \<Rightarrow> nat fetch_result" where
  "la_down url =
     (if url = census_url ''06037'' 2 then HTTPError
      else Fetched [(''type'', []), (''features'', [1, 2, 3])])"

section \<open>Floating-point cells\<close>

text \<open>
  A \<^verbatim>\<open>float64\<close> cell of a pandas column by its IEEE 754 class: a finite value (\<open>Fin 0\<close>
  is \<open>+0.0\<close>), negative zero, the two infinities and NaN, which pandas reads as the
  missing value (\<^verbatim>\<open>isna\<close> is true of NaN only, not of an infinity). The special values
  follow IEEE 754 as numpy computes them (a division by zero gives an infinity or NaN and
  raises nothing). Where both operands are finite and non-zero the exact quotient or
  product is handed to \<open>rnd\<close>, the rounding of a real number to a double (which may
  overflow to an infinity or underflow to a zero); \<open>rnd\<close> is a parameter, so a theorem
  for every \<open>rnd\<close> holds for the rounding of the machine.
\<close>

datatype f64 = Fin real | NegZero | PInf | NInf | NaN

fun negative :: "f64 \<Rightarrow> bool" where
  "negative (Fin r) = (r < 0)"
| "negative NegZero = True"
| "negative PInf = False"
| "negative NInf = True"
| "negative NaN = False"

fun is_zero :: "f64 \<Rightarrow> bool" where
  "is_zero (Fin r) = (r = 0)"
| "is_zero NegZero = True"
| "is_zero PInf = False"
| "is_zero NInf = False"
| "is_zero NaN = False"

fun is_inf :: "f64 \<Rightarrow> bool" where
  "is_inf (Fin r) = False"
| "is_inf NegZero = False"
| "is_inf PInf = True"
| "is_inf NInf = True"
| "is_inf NaN = False"

fun fval :: "f64 \<Rightarrow> real" where
  "fval (Fin r) = r"
| "fval NegZero = 0"
| "fval PInf = 0"
| "fval NInf = 0"
| "fval NaN = 0"

text \<open>
  The zero and the infinity of a sign (true for negative), and for the examples the
  rounding that keeps every real number as it is. What the examples show (an infinity, a
  missing value, a quotient other than 1) does not depend on the rounding.
\<close>

definition fzero :: "bool \<Rightarrow> f64" where
  "fzero neg = (if neg then NegZero else Fin 0)"

definition finf :: "bool \<Rightarrow> f64" where
  "finf neg = (if neg then NInf else PInf)"

definition exact :: "real \<Rightarrow> f64" where
  "exact r = Fin r"

definition fdiv :: "(real \<Rightarrow> f64) \<Rightarrow> f64 \<Rightarrow> f64 \<Rightarrow> f64" where
  "fdiv rnd a b =
     (if a = NaN \<or> b = NaN then NaN
      else if is_inf a then (if is_inf b then NaN else finf (negative a \<noteq> negative b))
      else if is_inf b then fzero (negative a \<noteq> negative b)
      else if is_zero b then (if is_zero a then NaN else finf (negative a \<noteq> negative b))
      else if is_zero a then fzero (negative a \<noteq> negative b)
      else rnd (fval a / fval b))"

definition fmul :: "(real \<Rightarrow> f64) \<Rightarrow> f64 \<Rightarrow> f64 \<Rightarrow> f64" where
  "fmul rnd a b =
     (if a = NaN \<or> b = NaN then NaN
      else if is_inf a \<or> is_inf b then
        (if is_zero a \<or> is_zero b then NaN else finf (negative a \<noteq> negative b))
      else if is_zero a \<or> is_zero b then fzero (negative a \<noteq> negative b)
      else rnd (fval a * fval b))"

text \<open>
  The order of the doubles, as \<^verbatim>\<open><\<close> compares them: false whenever an operand is NaN,
  the two zeros equal.
\<close>

fun level :: "f64 \<Rightarrow> int" where
  "level (Fin r) = 0"
| "level NegZero = 0"
| "level PInf = 1"
| "level NInf = - 1"
| "level NaN = 2"

definition flt :: "f64 \<Rightarrow> f64 \<Rightarrow> bool" where
  "flt a b =
     (a \<noteq> NaN \<and> b \<noteq> NaN \<and> (level a < level b \<or> (level a = level b \<and> fval a < fval b)))"

section \<open>Derived metrics: city\_RTV and area\_sq\_mi\<close>

text \<open>
  Line 274: \<^verbatim>\<open>city_ZORI / city_ZHVI * 100\<close>, element by element on two columns of one
  frame. pandas divides as \<^verbatim>\<open>float64\<close> (an integer column is converted first), with no
  guard on the divisor.
\<close>

definition city_RTV :: "(real \<Rightarrow> f64) \<Rightarrow> f64 \<Rightarrow> f64 \<Rightarrow> f64" where
  "city_RTV rnd city_ZORI city_ZHVI = fmul rnd (fdiv rnd city_ZORI city_ZHVI) (Fin 100)"

definition city_RTV_column :: "(real \<Rightarrow> f64) \<Rightarrow> f64 list \<Rightarrow> f64 list \<Rightarrow> f64 list" where
  "city_RTV_column rnd zori zhvi = map (\<lambda>(r, v). city_RTV rnd r v) (zip zori zhvi)"

text \<open>
  Line 328: \<^verbatim>\<open>geometry.to_crs(3857).area / 2.59e+6\<close>. The reprojection (pyproj) and the
  planar area (shapely) are parameters; the EPSG code of the target system and the divisor
  are the source's.
\<close>

definition area_sq_mi ::
  "(real \<Rightarrow> f64) \<Rightarrow> (nat \<Rightarrow> 'g \<Rightarrow> 'g) \<Rightarrow> ('g \<Rightarrow> f64) \<Rightarrow> 'g \<Rightarrow> f64" where
  "area_sq_mi rnd to_crs area geometry = fdiv rnd (area (to_crs 3857 geometry)) (Fin 2590000)"

section \<open>Nearest assignment: nearest\_poly and rename\_nh\_id\<close>

text \<open>
  \<^verbatim>\<open>Series.idxmin()\<close> (\<^verbatim>\<open>skipna=True\<close>) on a series of doubles, given as its
  (label, value) pairs in order. pandas puts \<open>+inf\<close> in the place of every NaN and takes
  numpy's \<^verbatim>\<open>argmin\<close>, the first position of the least value, which the scan below
  computes: the candidate is replaced only by a strictly smaller value. An empty series
  raises ValueError; a series of NaN only has no position to return, and the result is
  NaN, not a label (\<open>None\<close> here).
\<close>

definition fill_inf :: "f64 \<Rightarrow> f64" where
  "fill_inf v = (if v = NaN then PInf else v)"

fun argmin_from :: "nat \<Rightarrow> f64 \<Rightarrow> nat \<Rightarrow> f64 list \<Rightarrow> nat" where
  "argmin_from best bv i [] = best"
| "argmin_from best bv i (x # xs) =
     (if flt x bv then argmin_from i x (Suc i) xs else argmin_from best bv (Suc i) xs)"

fun argmin :: "f64 list \<Rightarrow> nat" where
  "argmin [] = 0"
| "argmin (x # xs) = argmin_from 0 x 1 xs"

definition idxmin :: "('l \<times> f64) list \<Rightarrow> py_error + 'l option" where
  "idxmin s =
     (if s = [] then Inl ValueError
      else if list_all (\<lambda>p. snd p = NaN) s then Inr None
      else Inr (Some (fst (s ! argmin (map (\<lambda>p. fill_inf (snd p)) s)))))"

text \<open>
  A geometry column with its index: (label, geometry) pairs in row order.
  \<^verbatim>\<open>polygons.distance(point)\<close> is the series of shapely's distances, one per row;
  the distance function is a parameter.
\<close>

definition distance :: "('g \<Rightarrow> 'g \<Rightarrow> f64) \<Rightarrow> ('l \<times> 'g) list \<Rightarrow> 'g \<Rightarrow> ('l \<times> f64) list" where
  "distance gdist gs other = map (\<lambda>(l, g). (l, gdist g other)) gs"

definition nearest_poly ::
  "('g \<Rightarrow> 'g \<Rightarrow> f64) \<Rightarrow> 'g \<Rightarrow> ('l \<times> 'g) list \<Rightarrow> py_error + 'l option" where
  "nearest_poly gdist point polygons = idxmin (distance gdist polygons point)"

text \<open>
  \<^verbatim>\<open>rename_nh_id(row, point_gdf)\<close>: the neighbourhood points are rows
  (label, (geometry, id)); \<^verbatim>\<open>point_gdf.loc[label, 'id']\<close> raises KeyError for a label
  that no row has (NaN among them). The result is the \<^verbatim>\<open>nh_id\<close> written to the row.
\<close>

definition loc_id :: "('l \<times> 'g \<times> 'i) list \<Rightarrow> 'l option \<Rightarrow> py_error + 'i" where
  "loc_id point_gdf label =
     (case label of
        None \<Rightarrow> Inl KeyError
      | Some l \<Rightarrow> (case map_of point_gdf l of None \<Rightarrow> Inl KeyError | Some (g, i) \<Rightarrow> Inr i))"

definition rename_nh_id ::
  "('g \<Rightarrow> 'g \<Rightarrow> f64) \<Rightarrow> ('g \<Rightarrow> 'g) \<Rightarrow> 'g \<Rightarrow> ('l \<times> 'g \<times> 'i) list \<Rightarrow> py_error + 'i" where
  "rename_nh_id gdist centroid row_geometry point_gdf =
     (case idxmin (distance gdist (map (\<lambda>(l, g, i). (l, g)) point_gdf) (centroid row_geometry)) of
        Inl e \<Rightarrow> Inl e
      | Inr nearest_point_idx \<Rightarrow> loc_id point_gdf nearest_point_idx)"

text \<open>Points of a line, for examples: the distance of two of them is exact here.\<close>

definition line_dist :: "real \<Rightarrow> real \<Rightarrow> f64" where
  "line_dist a b = Fin \<bar>a - b\<bar>"

text \<open>
  Following the spec's words, for comparison with \<^const>\<open>idxmin\<close>: among the references
  whose distance is within the tolerance \<open>tol\<close> of the minimum, the one met first.
\<close>

definition first_within_tolerance :: "real \<Rightarrow> ('l \<times> f64) list \<Rightarrow> 'l option" where
  "first_within_tolerance tol s =
     map_option fst (find (\<lambda>p. list_all (\<lambda>q. fval (snd p) \<le> fval (snd q) + tol) s) s)"

text \<open>
  Position \<open>i\<close> of a list of distances holds a least one, and every position before it
  holds a strictly greater one: \<open>i\<close> is the first position of the minimum.
\<close>

definition first_minimum :: "f64 list \<Rightarrow> nat \<Rightarrow> bool" where
  "first_minimum ds i =
     (i < length ds \<and> list_all (\<lambda>d. \<not> flt d (ds ! i)) ds \<and> list_all (\<lambda>d. flt (ds ! i) d) (take i ds))"

text \<open>
  For examples of the area: a square given by its side in metres, in a frame whose
  coordinates are planar already (the reprojection leaves it as it is).
\<close>

definition mile_square :: "real \<Rightarrow> f64" where
  "mile_square side = Fin (side * side)"

definition keep_crs :: "nat \<Rightarrow> real \<Rightarrow> real" where
  "keep_crs epsg g = g"

section \<open>Dissolve: group\_and\_union\<close>

text \<open>
  A GeoDataFrame as far as \<^verbatim>\<open>group_and_union\<close> reads and builds it: its coordinate
  reference system (if one is set) and, row by row, the \<^verbatim>\<open>nh_id\<close> and the geometry.
  The type of the \<^verbatim>\<open>nh_id\<close> cells is a parameter: in the frame that is read they are
  ids or missing (NaN, \<open>None\<close>), in the frame that is built they are ids. The ids are
  ordered as pandas orders them.
\<close>

record ('i, 'g, 'c) geoframe =
  crs :: "'c option"
  features :: "('i \<times> 'g) list"

text \<open>
  \<^verbatim>\<open>poly_gdf.groupby('nh_id')\<close> (\<^verbatim>\<open>sort=True\<close>, \<^verbatim>\<open>dropna=True\<close>) iterates over
  the distinct keys in ascending order; a row whose key is missing is in no group. The
  group of a key holds the rows of that key in frame order.
\<close>

fun present :: "'i option list \<Rightarrow> 'i list" where
  "present [] = []"
| "present (None # ks) = present ks"
| "present (Some k # ks) = k # present ks"

definition groupby_keys :: "('i::linorder option \<times> 'g) list \<Rightarrow> 'i list" where
  "groupby_keys rs = sort (remdups (present (map fst rs)))"

definition get_group :: "('i option \<times> 'g) list \<Rightarrow> 'i \<Rightarrow> 'g list" where
  "get_group rs name = map snd (filter (\<lambda>r. fst r = Some name) rs)"

text \<open>
  \<^verbatim>\<open>group_and_union(poly_gdf)\<close>: one dict per group, with the union of the group's
  geometries (shapely's \<^verbatim>\<open>unary_union\<close>, a parameter), made into a GeoDataFrame with the
  CRS of the input. From an empty list of dicts (no row has a key) the frame gets no
  geometry column, and geopandas refuses a CRS for such a frame with ValueError.
\<close>

definition group_and_union ::
  "('g list \<Rightarrow> 'g) \<Rightarrow> ('i::linorder option, 'g, 'c) geoframe
     \<Rightarrow> py_error + ('i, 'g, 'c) geoframe" where
  "group_and_union unary_union poly_gdf =
     (let polygons = map (\<lambda>name. (name, unary_union (get_group (features poly_gdf) name)))
                         (groupby_keys (features poly_gdf))
      in if polygons = [] \<and> crs poly_gdf \<noteq> None then Inl ValueError
         else Inr \<lparr>crs = crs poly_gdf, features = polygons\<rparr>)"

text \<open>
  Five census blocks in Web Mercator, assigned to the neighbourhoods 7, 3, none, 5, 3;
  and one block with no neighbourhood id. A geometry is the list of the blocks it is made
  of, and the union of geometries joins the lists.
\<close>

definition five_blocks :: "(nat option, nat list, nat) geoframe" where
  "five_blocks =
     \<lparr>crs = Some 3857,
      features = [(Some 7, [0]), (Some 3, [1]), (None, [2]), (Some 5, [3]), (Some 3, [4])]\<rparr>"

definition unassigned_block :: "(nat option, nat list, nat) geoframe" where
  "unassigned_block = \<lparr>crs = Some 3857, features = [(None, [0])]\<rparr>"

section \<open>Population: lines 331 to 334\<close>














section \<open>Data frames and the join engine\<close>

text \<open>
  A pandas DataFrame, column by column: the number of rows and the columns in order,
  each a label with its cells. A cell is a value or missing (NaN, here \<open>None\<close>); the
  type of the values is left open. In a well-formed frame every column has as many cells
  as the frame has rows. The row index is not modelled: \<^verbatim>\<open>merge\<close> builds a new one,
  and \<^verbatim>\<open>drop\<close>, \<^verbatim>\<open>rename\<close> and \<^verbatim>\<open>drop_duplicates\<close> do not read it.
\<close>

record 'a frame =
  nrows :: nat
  columns :: "(string \<times> 'a option list) list"

definition labels :: "'a frame \<Rightarrow> string list" where
  "labels df = map fst (columns df)"

definition wf_frame :: "'a frame \<Rightarrow> bool" where
  "wf_frame df = list_all (\<lambda>c. length (snd c) = nrows df) (columns df)"

text \<open>
  The cells of the column a key names: KeyError if no column has the label, ValueError
  if more than one has.
\<close>

definition get_label_values :: "'a frame \<Rightarrow> string \<Rightarrow> py_error + 'a option list" where
  "get_label_values df key =
     (case filter (\<lambda>c. fst c = key) (columns df) of
        [] \<Rightarrow> Inl KeyError
      | [c] \<Rightarrow> Inr (snd c)
      | _ \<Rightarrow> Inl ValueError)"

text \<open>
  The key columns of a merge, pair by pair of \<^verbatim>\<open>left_on\<close> and \<^verbatim>\<open>right_on\<close>, the
  right one looked up first.
\<close>

fun merge_keys ::
  "'a frame \<Rightarrow> 'a frame \<Rightarrow> (string \<times> string) list
     \<Rightarrow> py_error + ('a option list list \<times> 'a option list list)" where
  "merge_keys left right [] = Inr ([], [])"
| "merge_keys left right ((lk, rk) # ks) =
     (case get_label_values right rk of
        Inl e \<Rightarrow> Inl e
      | Inr rv \<Rightarrow>
          (case get_label_values left lk of
             Inl e \<Rightarrow> Inl e
           | Inr lv \<Rightarrow>
               (case merge_keys left right ks of
                  Inl e \<Rightarrow> Inl e
                | Inr (lvs, rvs) \<Rightarrow> Inr (lv # lvs, rv # rvs))))"

text \<open>The key of each row: its cells in the key columns. Two missing cells are equal keys.\<close>

definition key_rows :: "nat \<Rightarrow> 'a option list list \<Rightarrow> 'a option list list" where
  "key_rows n cols = map (\<lambda>i. map (\<lambda>c. c ! i) cols) [0..<n]"

text \<open>
  The row pairs of a join. Each left row, in order, is paired with every right row of
  the same key, in order; a left row without a match is kept with no right row by a left
  join and left out by an inner join.
\<close>

datatype how = HowLeft | HowInner

fun positions_from :: "nat \<Rightarrow> 'k list \<Rightarrow> 'k \<Rightarrow> nat list" where
  "positions_from j [] k = []"
| "positions_from j (x # xs) k = (if x = k then [j] else []) @ positions_from (Suc j) xs k"

fun indexer_from :: "how \<Rightarrow> nat \<Rightarrow> 'k list \<Rightarrow> 'k list \<Rightarrow> (nat \<times> nat option) list" where
  "indexer_from h i [] rks = []"
| "indexer_from h i (k # lks) rks =
     (case positions_from 0 rks k of
        [] \<Rightarrow> (if h = HowLeft then [(i, None)] else [])
      | ms \<Rightarrow> map (\<lambda>j. (i, Some j)) ms)
     @ indexer_from h (Suc i) lks rks"

definition take_left :: "(nat \<times> nat option) list \<Rightarrow> 'a option list \<Rightarrow> 'a option list" where
  "take_left idx c = map (\<lambda>p. c ! fst p) idx"

definition take_right :: "(nat \<times> nat option) list \<Rightarrow> 'a option list \<Rightarrow> 'a option list" where
  "take_right idx c = map (\<lambda>p. case snd p of None \<Rightarrow> None | Some j \<Rightarrow> c ! j) idx"

text \<open>
  Labels that both frames have get the suffix of their side. pandas refuses an overlap
  with two empty suffixes (ValueError) and a suffix that makes two labels of one side
  equal that were not equal before (MergeError).
\<close>

definition add_suffix :: "string list \<Rightarrow> string \<Rightarrow> string \<Rightarrow> string" where
  "add_suffix to_rename suffix x = (if x \<in> set to_rename then x @ suffix else x)"

definition new_duplicates :: "string list \<Rightarrow> string list \<Rightarrow> bool" where
  "new_duplicates old new =
     list_ex (\<lambda>i. new ! i \<in> set (take i new) \<and> old ! i \<notin> set (take i old)) [0..<length new]"

text \<open>
  \<^verbatim>\<open>pd.merge(left, right, how=..., left_on=..., right_on=..., suffixes=...)\<close> for
  \<^verbatim>\<open>how\<close> one of \<^verbatim>\<open>'left'\<close> and \<^verbatim>\<open>'inner'\<close>, the key lists given as lists of labels.
  A right key column with the label of its left key column is not repeated in the result.
\<close>

definition pd_merge ::
  "how \<Rightarrow> 'a frame \<Rightarrow> 'a frame \<Rightarrow> string list \<Rightarrow> string list \<Rightarrow> string \<times> string
     \<Rightarrow> py_error + 'a frame" where
  "pd_merge h left right left_on right_on suffixes =
     (if length right_on \<noteq> length left_on \<or> left_on = [] then Inl ValueError
      else
        (case merge_keys left right (zip left_on right_on) of
           Inl e \<Rightarrow> Inl e
         | Inr (left_keys, right_keys) \<Rightarrow>
             (let right_drop = map snd (filter (\<lambda>p. fst p = snd p) (zip left_on right_on));
                  rcols = filter (\<lambda>c. fst c \<notin> set right_drop) (columns right);
                  to_rename = filter (\<lambda>x. x \<in> set (map fst rcols)) (labels left);
                  llabels = map (add_suffix to_rename (fst suffixes)) (labels left);
                  rlabels = map (add_suffix to_rename (snd suffixes)) (map fst rcols)
              in if to_rename \<noteq> [] \<and> fst suffixes = [] \<and> snd suffixes = [] then Inl ValueError
                 else if new_duplicates (labels left) llabels
                         \<or> new_duplicates (map fst rcols) rlabels then Inl MergeError
                 else
                   (let idx = indexer_from h 0 (key_rows (nrows left) left_keys)
                                (key_rows (nrows right) right_keys)
                    in Inr \<lparr>nrows = length idx,
                            columns =
                              map (\<lambda>c. (add_suffix to_rename (fst suffixes) (fst c),
                                         take_left idx (snd c))) (columns left)
                              @ map (\<lambda>c. (add_suffix to_rename (snd suffixes) (fst c),
                                           take_right idx (snd c))) rcols\<rparr>))))"

text \<open>
  \<^verbatim>\<open>df.drop(columns=labels)\<close> raises KeyError for a label that no column has and
  removes every column that has one of the labels. \<^verbatim>\<open>df.rename(columns={old: new})\<close>
  relabels the columns that have a label of the dict.
\<close>

definition drop_columns :: "'a frame \<Rightarrow> string list \<Rightarrow> py_error + 'a frame" where
  "drop_columns df ls =
     (if list_ex (\<lambda>l. l \<notin> set (labels df)) ls then Inl KeyError
      else Inr (df\<lparr>columns := filter (\<lambda>c. fst c \<notin> set ls) (columns df)\<rparr>))"

definition rename_columns :: "'a frame \<Rightarrow> string pydict \<Rightarrow> 'a frame" where
  "rename_columns df m =
     df\<lparr>columns :=
          map (\<lambda>c. (case map_of m (fst c) of None \<Rightarrow> fst c | Some n \<Rightarrow> n, snd c)) (columns df)\<rparr>"





text \<open>
  Lines 305 to 310: the boundaries joined to the neighbourhood records with
  \<^verbatim>\<open>DataFrame.merge\<close>, whose defaults are \<^verbatim>\<open>how='inner'\<close> and the suffixes
  \<^verbatim>\<open>_x\<close>, \<^verbatim>\<open>_y\<close>; then the helper columns dropped and the boundary made the geometry.
\<close>

definition attach_boundaries :: "'a frame \<Rightarrow> 'a frame \<Rightarrow> py_error + 'a frame" where
  "attach_boundaries neighborhood_rtv_gdf union_gdf =
     (case pd_merge HowInner neighborhood_rtv_gdf union_gdf [''id''] [''nh_id''] (''_x'', ''_y'') of
        Inl e \<Rightarrow> Inl e
      | Inr df \<Rightarrow>
          (case drop_columns df [''nh_id'', ''nearest_poly''] of
             Inl e \<Rightarrow> Inl e
           | Inr df \<Rightarrow>
               (case drop_columns df [''geometry_x''] of
                  Inl e \<Rightarrow> Inl e
                | Inr df \<Rightarrow> Inr (rename_columns df [(''geometry_y'', ''geometry'')]))))"


definition zhvi :: "string frame" where
  "zhvi =
     \<lparr>nrows = 2,
      columns = [(''RegionName'', [Some ''San Francisco'', Some ''Los Angeles'']),
                 (''2023-06-30'', [Some ''1200000'', Some ''900000''])]\<rparr>"

definition zori :: "string frame" where
  "zori =
     \<lparr>nrows = 2,
      columns = [(''RegionName'', [Some ''San Francisco'', Some ''Los Angeles'']),
                 (''2023-06-30'', [Some ''3300'', Some ''2900''])]\<rparr>"

text \<open>
  Example frames for the boundary join: two neighbourhood records, and the dissolved
  boundaries when every census block was nearest to the first of them.
\<close>

definition two_records :: "string frame" where
  "two_records =
     \<lparr>nrows = 2,
      columns = [(''id'', [Some ''1840021543'', Some ''1840020290'']),
                 (''neighborhood'', [Some ''Mission'', Some ''Castro'']),
                 (''geometry'', [Some ''POINT (-13627000 4544000)'', Some ''POINT (-13628500 4544300)'']),
                 (''nearest_poly'', [Some ''0'', Some ''3''])]\<rparr>"

definition one_boundary :: "string frame" where
  "one_boundary =
     \<lparr>nrows = 1,
      columns = [(''geometry'', [Some ''POLYGON A'']),
                 (''nh_id'', [Some ''1840021543''])]\<rparr>"

section \<open>Theorems\<close>

text \<open>
  C7. A failed request for one county should leave that county out and let the run go on
  with the others. The caller is written for that (it skips a \<^verbatim>\<open>None\<close> result), but the
  query function never returns \<^verbatim>\<open>None\<close>: after a failed request its log line subscripts
  \<^verbatim>\<open>None\<close> and raises TypeError, which ends the whole run. Here Orange County (06059)
  is answered, Los Angeles (06037) is not, and the run over both counties raises TypeError
  whichever county comes first.
\<close>

theorem failed_county_aborts_run:
  "query_census_by_geography la_down ''06037'' ''block'' = Inl TypeError
   \<and> split_counties_and_query_census la_down [''06059'', ''06037''] ''block'' = Inl TypeError
   \<and> split_counties_and_query_census la_down [''06037'', ''06059''] ''block'' = Inl TypeError
   \<and> split_counties_and_query_census la_down [''06059''] ''block''
       = Inr [(''type'', []), (''features'', [1, 2, 3])]"
  by (simp add: split_counties_and_query_census_def query_census_by_geography_def la_down_def
      getitem_def sub_layer_def census_url_def layer_str_def where_clause_def quote_def
      base_url_def)

subsection \<open>The first position of the least distance\<close>

lemma flt_irrefl: "\<not> flt a a" by (simp add: flt_def)
lemma flt_trans: "flt a b \<Longrightarrow> flt b c \<Longrightarrow> flt a c" by (auto simp: flt_def)
lemma flt_asym: "flt a b \<Longrightarrow> \<not> flt b a" by (auto simp: flt_def)
lemma flt_neg_trans: "\<not> flt a b \<Longrightarrow> flt c b \<Longrightarrow> a \<noteq> NaN \<Longrightarrow> flt c a"
  by (auto simp: flt_def)

lemma argmin_from_spec:
  assumes "best < i" "\<forall>x\<in>set xs. x \<noteq> NaN" "bv \<noteq> NaN"
  shows "(argmin_from best bv i xs = best \<and> (\<forall>x\<in>set xs. \<not> flt x bv))
       \<or> (\<exists>k<length xs. argmin_from best bv i xs = i + k \<and> flt (xs ! k) bv
            \<and> (\<forall>j<length xs. \<not> flt (xs ! j) (xs ! k)) \<and> (\<forall>j<k. flt (xs ! k) (xs ! j)))"
  using assms
proof (induction xs arbitrary: best bv i)
  case Nil
  then show ?case by simp
next
  case (Cons x xs)
  show ?case
  proof (cases "flt x bv")
    case True
    have xn: "x \<noteq> NaN" using Cons.prems by simp
    from Cons.IH[of i "Suc i" x] Cons.prems xn
    have IH: "(argmin_from i x (Suc i) xs = i \<and> (\<forall>y\<in>set xs. \<not> flt y x))
       \<or> (\<exists>k<length xs. argmin_from i x (Suc i) xs = Suc i + k \<and> flt (xs ! k) x
            \<and> (\<forall>j<length xs. \<not> flt (xs ! j) (xs ! k)) \<and> (\<forall>j<k. flt (xs ! k) (xs ! j)))"
      by simp
    then show ?thesis
    proof
      assume a: "argmin_from i x (Suc i) xs = i \<and> (\<forall>y\<in>set xs. \<not> flt y x)"
      have "\<forall>j<length (x # xs). \<not> flt ((x # xs) ! j) x"
      proof (intro allI impI)
        fix j assume "j < length (x # xs)"
        then show "\<not> flt ((x # xs) ! j) x"
          using a by (cases j) (auto simp: flt_irrefl)
      qed
      then show ?thesis using a True
        by (intro disjI2 exI[of _ 0]) simp
    next
      assume "\<exists>k<length xs. argmin_from i x (Suc i) xs = Suc i + k \<and> flt (xs ! k) x
            \<and> (\<forall>j<length xs. \<not> flt (xs ! j) (xs ! k)) \<and> (\<forall>j<k. flt (xs ! k) (xs ! j))"
      then obtain k where k: "k < length xs" "argmin_from i x (Suc i) xs = Suc i + k"
        "flt (xs ! k) x" "\<forall>j<length xs. \<not> flt (xs ! j) (xs ! k)" "\<forall>j<k. flt (xs ! k) (xs ! j)"
        by blast
      have 1: "flt ((x # xs) ! Suc k) bv" using k(3) True by (auto intro: flt_trans)
      have 2: "\<forall>j<length (x # xs). \<not> flt ((x # xs) ! j) ((x # xs) ! Suc k)"
      proof (intro allI impI)
        fix j assume "j < length (x # xs)"
        then show "\<not> flt ((x # xs) ! j) ((x # xs) ! Suc k)"
          using k(3,4) by (cases j) (auto dest: flt_asym)
      qed
      have 3: "\<forall>j<Suc k. flt ((x # xs) ! Suc k) ((x # xs) ! j)"
      proof (intro allI impI)
        fix j assume "j < Suc k"
        then show "flt ((x # xs) ! Suc k) ((x # xs) ! j)"
          using k(3,5) by (cases j) auto
      qed
      show ?thesis using True k(1,2) 1 2 3
        by (intro disjI2 exI[of _ "Suc k"]) simp
    qed
  next
    case False
    from Cons.IH[of best "Suc i" bv] Cons.prems
    have IH: "(argmin_from best bv (Suc i) xs = best \<and> (\<forall>y\<in>set xs. \<not> flt y bv))
       \<or> (\<exists>k<length xs. argmin_from best bv (Suc i) xs = Suc i + k \<and> flt (xs ! k) bv
            \<and> (\<forall>j<length xs. \<not> flt (xs ! j) (xs ! k)) \<and> (\<forall>j<k. flt (xs ! k) (xs ! j)))"
      by simp
    then show ?thesis
    proof
      assume "argmin_from best bv (Suc i) xs = best \<and> (\<forall>y\<in>set xs. \<not> flt y bv)"
      then show ?thesis using False by simp
    next
      assume "\<exists>k<length xs. argmin_from best bv (Suc i) xs = Suc i + k \<and> flt (xs ! k) bv
            \<and> (\<forall>j<length xs. \<not> flt (xs ! j) (xs ! k)) \<and> (\<forall>j<k. flt (xs ! k) (xs ! j))"
      then obtain k where k: "k < length xs" "argmin_from best bv (Suc i) xs = Suc i + k"
        "flt (xs ! k) bv" "\<forall>j<length xs. \<not> flt (xs ! j) (xs ! k)" "\<forall>j<k. flt (xs ! k) (xs ! j)"
        by blast
      have xn: "x \<noteq> NaN" using Cons.prems by simp
      have lt: "flt (xs ! k) x" using flt_neg_trans[OF False k(3) xn] .
      have 2: "\<forall>j<length (x # xs). \<not> flt ((x # xs) ! j) ((x # xs) ! Suc k)"
      proof (intro allI impI)
        fix j assume "j < length (x # xs)"
        then show "\<not> flt ((x # xs) ! j) ((x # xs) ! Suc k)"
          using lt k(4) by (cases j) (auto dest: flt_asym)
      qed
      have 3: "\<forall>j<Suc k. flt ((x # xs) ! Suc k) ((x # xs) ! j)"
      proof (intro allI impI)
        fix j assume "j < Suc k"
        then show "flt ((x # xs) ! Suc k) ((x # xs) ! j)"
          using lt k(5) by (cases j) auto
      qed
      show ?thesis using False k(1,2,3) 2 3
        by (intro disjI2 exI[of _ "Suc k"]) simp
    qed
  qed
qed


lemma argmin_first_min:
  assumes "xs \<noteq> []" "\<forall>x\<in>set xs. x \<noteq> NaN"
  shows "argmin xs < length xs \<and> (\<forall>j<length xs. \<not> flt (xs ! j) (xs ! argmin xs))
         \<and> (\<forall>j<argmin xs. flt (xs ! argmin xs) (xs ! j))"
proof -
  obtain y ys where xs: "xs = y # ys" using assms(1) by (cases xs) auto
  have yn: "y \<noteq> NaN" and ysn: "\<forall>x\<in>set ys. x \<noteq> NaN" using assms(2) xs by auto
  from argmin_from_spec[of 0 1 ys y] ysn yn
  have "(argmin_from 0 y 1 ys = 0 \<and> (\<forall>x\<in>set ys. \<not> flt x y))
       \<or> (\<exists>k<length ys. argmin_from 0 y 1 ys = 1 + k \<and> flt (ys ! k) y
            \<and> (\<forall>j<length ys. \<not> flt (ys ! j) (ys ! k)) \<and> (\<forall>j<k. flt (ys ! k) (ys ! j)))"
    by simp
  then show ?thesis
  proof
    assume a: "argmin_from 0 y 1 ys = 0 \<and> (\<forall>x\<in>set ys. \<not> flt x y)"
    have "\<forall>j<length xs. \<not> flt (xs ! j) y"
    proof (intro allI impI)
      fix j assume "j < length xs"
      then show "\<not> flt (xs ! j) y" using a xs by (cases j) (auto simp: flt_irrefl)
    qed
    then show ?thesis using a xs by simp
  next
    assume "\<exists>k<length ys. argmin_from 0 y 1 ys = 1 + k \<and> flt (ys ! k) y
            \<and> (\<forall>j<length ys. \<not> flt (ys ! j) (ys ! k)) \<and> (\<forall>j<k. flt (ys ! k) (ys ! j))"
    then obtain k where k: "k < length ys" "argmin_from 0 y 1 ys = 1 + k" "flt (ys ! k) y"
      "\<forall>j<length ys. \<not> flt (ys ! j) (ys ! k)" "\<forall>j<k. flt (ys ! k) (ys ! j)"
      by blast
    have am: "argmin xs = Suc k" using k(2) xs by simp
    have 2: "\<forall>j<length xs. \<not> flt (xs ! j) (xs ! Suc k)"
    proof (intro allI impI)
      fix j assume "j < length xs"
      then show "\<not> flt (xs ! j) (xs ! Suc k)"
        using k(3,4) xs by (cases j) (auto dest: flt_asym)
    qed
    have 3: "\<forall>j<Suc k. flt (xs ! Suc k) (xs ! j)"
    proof (intro allI impI)
      fix j assume "j < Suc k"
      then show "flt (xs ! Suc k) (xs ! j)" using k(3,5) xs by (cases j) auto
    qed
    show ?thesis using am k(1) xs 2 3 by simp
  qed
qed

lemma fill_inf_not_NaN: "fill_inf v \<noteq> NaN"
  by (simp add: fill_inf_def)

lemma idxmin_first_min:
  assumes "s \<noteq> []" "\<not> list_all (\<lambda>p. snd p = NaN) s"
  shows "\<exists>i<length s. idxmin s = Inr (Some (fst (s ! i)))
           \<and> (\<forall>j<length s. \<not> flt (fill_inf (snd (s ! j))) (fill_inf (snd (s ! i))))
           \<and> (\<forall>j<i. flt (fill_inf (snd (s ! i))) (fill_inf (snd (s ! j))))"
proof -
  let ?vs = "map (\<lambda>p. fill_inf (snd p)) s"
  have ne: "?vs \<noteq> []" using assms(1) by simp
  have nn: "\<forall>x\<in>set ?vs. x \<noteq> NaN" by (auto simp: fill_inf_not_NaN)
  have nthv: "\<And>k. k < length s \<Longrightarrow> ?vs ! k = fill_inf (snd (s ! k))" by simp
  from argmin_first_min[OF ne nn]
  have a1: "argmin ?vs < length ?vs"
    and a2: "\<forall>j<length ?vs. \<not> flt (?vs ! j) (?vs ! argmin ?vs)"
    and a3: "\<forall>j<argmin ?vs. flt (?vs ! argmin ?vs) (?vs ! j)"
    by blast+
  have a: "argmin ?vs < length s" using a1 by simp
  have i: "idxmin s = Inr (Some (fst (s ! argmin ?vs)))"
    using assms by (simp add: idxmin_def)
  have 2: "\<forall>j<length s. \<not> flt (fill_inf (snd (s ! j))) (fill_inf (snd (s ! argmin ?vs)))"
  proof (intro allI impI)
    fix j assume j: "j < length s"
    then have "\<not> flt (?vs ! j) (?vs ! argmin ?vs)" using a2 by simp
    then show "\<not> flt (fill_inf (snd (s ! j))) (fill_inf (snd (s ! argmin ?vs)))"
      using nthv[OF j] nthv[OF a] by simp
  qed
  have 3: "\<forall>j<argmin ?vs. flt (fill_inf (snd (s ! argmin ?vs))) (fill_inf (snd (s ! j)))"
  proof (intro allI impI)
    fix j assume j: "j < argmin ?vs"
    then have jl: "j < length s" using a by simp
    have "flt (?vs ! argmin ?vs) (?vs ! j)" using a3 j by blast
    then show "flt (fill_inf (snd (s ! argmin ?vs))) (fill_inf (snd (s ! j)))"
      using nthv[OF jl] nthv[OF a] by simp
  qed
  show ?thesis using a i 2 3 by blast
qed


lemma idxmin_first_minimum:
  assumes "s \<noteq> []" "\<not> list_all (\<lambda>p. snd p = NaN) s"
  shows "\<exists>i. first_minimum (map (\<lambda>p. fill_inf (snd p)) s) i \<and> idxmin s = Inr (Some (fst (s ! i)))"
proof -
  from idxmin_first_min[OF assms] obtain i where i: "i < length s"
    "idxmin s = Inr (Some (fst (s ! i)))"
    "\<forall>j<length s. \<not> flt (fill_inf (snd (s ! j))) (fill_inf (snd (s ! i)))"
    "\<forall>j<i. flt (fill_inf (snd (s ! i))) (fill_inf (snd (s ! j)))"
    by blast
  have "first_minimum (map (\<lambda>p. fill_inf (snd p)) s) i"
    using i(1,3,4) by (simp add: first_minimum_def list_all_length)
  then show ?thesis using i(2) by blast
qed

lemma nearest_poly_first_minimum:
  "polygons \<noteq> [] \<and> \<not> list_all (\<lambda>p. gdist (snd p) point = NaN) polygons \<longrightarrow>
     (\<exists>i. first_minimum (map (\<lambda>p. fill_inf (gdist (snd p) point)) polygons) i
          \<and> nearest_poly gdist point polygons = Inr (Some (fst (polygons ! i))))"
proof
  assume a: "polygons \<noteq> [] \<and> \<not> list_all (\<lambda>p. gdist (snd p) point = NaN) polygons"
  let ?s = "distance gdist polygons point"
  have ne: "?s \<noteq> []" using a by (simp add: distance_def)
  have nall: "\<not> list_all (\<lambda>p. snd p = NaN) ?s"
    using a by (simp add: distance_def list_all_iff case_prod_unfold)
  have vs: "map (\<lambda>p. fill_inf (snd p)) ?s = map (\<lambda>p. fill_inf (gdist (snd p) point)) polygons"
    by (simp add: distance_def case_prod_unfold)
  from idxmin_first_minimum[OF ne nall] obtain i where i:
    "first_minimum (map (\<lambda>p. fill_inf (snd p)) ?s) i" "idxmin ?s = Inr (Some (fst (?s ! i)))"
    by blast
  have il: "i < length polygons" using i(1) by (simp add: first_minimum_def distance_def)
  have "fst (?s ! i) = fst (polygons ! i)"
    using il by (simp add: distance_def case_prod_unfold)
  then show "\<exists>i. first_minimum (map (\<lambda>p. fill_inf (gdist (snd p) point)) polygons) i
        \<and> nearest_poly gdist point polygons = Inr (Some (fst (polygons ! i)))"
    using i vs by (auto simp: nearest_poly_def)
qed

lemma rename_nh_id_first_minimum:
  "point_gdf \<noteq> [] \<and> distinct (map fst point_gdf)
       \<and> \<not> list_all (\<lambda>p. gdist (fst (snd p)) (centroid row_geometry) = NaN) point_gdf \<longrightarrow>
     (\<exists>i. first_minimum
            (map (\<lambda>p. fill_inf (gdist (fst (snd p)) (centroid row_geometry))) point_gdf) i
          \<and> rename_nh_id gdist centroid row_geometry point_gdf = Inr (snd (snd (point_gdf ! i))))"
proof
  assume a: "point_gdf \<noteq> [] \<and> distinct (map fst point_gdf)
     \<and> \<not> list_all (\<lambda>p. gdist (fst (snd p)) (centroid row_geometry) = NaN) point_gdf"
  let ?c = "centroid row_geometry"
  let ?s = "distance gdist (map (\<lambda>(l, g, i). (l, g)) point_gdf) ?c"
  have ne: "?s \<noteq> []" using a by (simp add: distance_def)
  have nall: "\<not> list_all (\<lambda>p. snd p = NaN) ?s"
    using a by (simp add: distance_def list_all_iff case_prod_unfold)
  have vs: "map (\<lambda>p. fill_inf (snd p)) ?s
             = map (\<lambda>p. fill_inf (gdist (fst (snd p)) ?c)) point_gdf"
    by (simp add: distance_def case_prod_unfold)
  from idxmin_first_minimum[OF ne nall] obtain i where i:
    "first_minimum (map (\<lambda>p. fill_inf (snd p)) ?s) i" "idxmin ?s = Inr (Some (fst (?s ! i)))"
    by blast
  have il: "i < length point_gdf" using i(1) by (simp add: first_minimum_def distance_def)
  have f: "fst (?s ! i) = fst (point_gdf ! i)"
    using il by (simp add: distance_def case_prod_unfold)
  have "map_of point_gdf (fst (point_gdf ! i)) = Some (snd (point_gdf ! i))"
    using a il by (metis map_of_eq_Some_iff nth_mem prod.collapse)
  then have "loc_id point_gdf (Some (fst (point_gdf ! i))) = Inr (snd (snd (point_gdf ! i)))"
    by (simp add: loc_id_def case_prod_unfold)
  then have "rename_nh_id gdist centroid row_geometry point_gdf = Inr (snd (snd (point_gdf ! i)))"
    using i(2) f by (simp add: rename_nh_id_def)
  then show "\<exists>i. first_minimum
          (map (\<lambda>p. fill_inf (gdist (fst (snd p)) ?c)) point_gdf) i
        \<and> rename_nh_id gdist centroid row_geometry point_gdf = Inr (snd (snd (point_gdf ! i)))"
    using i(1) vs by auto
qed

text \<open>
  C5 (as the code has it). Whenever some reference has a distance that is not NaN,
  \<^const>\<open>nearest_poly\<close> returns the label, and \<^const>\<open>rename_nh_id\<close> (on a frame with
  distinct labels) the id, of the reference at the first position of the least computed
  distance: no reference is strictly nearer, and every reference before it is strictly
  farther. So of several references at exactly the same computed distance the first in
  row order is taken. Equality is that of the computed doubles; there is no tolerance.
\<close>

theorem nearest_first_exact_minimum:
  "(polygons \<noteq> [] \<and> \<not> list_all (\<lambda>p. gdist (snd p) point = NaN) polygons \<longrightarrow>
     (\<exists>i. first_minimum (map (\<lambda>p. fill_inf (gdist (snd p) point)) polygons) i
          \<and> nearest_poly gdist point polygons = Inr (Some (fst (polygons ! i)))))
   \<and> (point_gdf \<noteq> [] \<and> distinct (map fst point_gdf)
       \<and> \<not> list_all (\<lambda>p. gdist (fst (snd p)) (centroid row_geometry) = NaN) point_gdf \<longrightarrow>
     (\<exists>i. first_minimum
            (map (\<lambda>p. fill_inf (gdist (fst (snd p)) (centroid row_geometry))) point_gdf) i
          \<and> rename_nh_id gdist centroid row_geometry point_gdf = Inr (snd (snd (point_gdf ! i)))))"
  by (rule conjI[OF nearest_poly_first_minimum rename_nh_id_first_minimum])

text \<open>
  Three references on a line at 2, 1 and -1, the query at 0: the last two are both at
  distance 1, and the theorem leaves only the first of them.
\<close>

theorem nearest_first_exact_minimum_witness:
  "nearest_poly line_dist 0 [(0::nat, 2), (1, 1), (2, - 1)] = Inr (Some 1)"
proof -
  let ?ps = "[(0::nat, 2::real), (1, 1), (2, - 1)]"
  have a: "?ps \<noteq> [] \<and> \<not> list_all (\<lambda>p. line_dist (snd p) 0 = NaN) ?ps"
    by (simp add: line_dist_def)
  from nearest_first_exact_minimum[of ?ps line_dist 0, THEN conjunct1, THEN mp, OF a]
  obtain i where i: "first_minimum (map (\<lambda>p. fill_inf (line_dist (snd p) 0)) ?ps) i"
    "nearest_poly line_dist 0 ?ps = Inr (Some (fst (?ps ! i)))"
    by blast
  have ds: "map (\<lambda>p. fill_inf (line_dist (snd p) 0)) ?ps = [Fin 2, Fin 1, Fin 1]"
    by (simp add: line_dist_def fill_inf_def)
  have fm: "first_minimum [Fin 2, Fin 1, Fin 1] i" using i(1) ds by simp
  have "i < 3" using fm by (simp add: first_minimum_def)
  then have "i = 0 \<or> i = 1 \<or> i = 2" by auto
  moreover have "i \<noteq> 0"
  proof
    assume "i = 0"
    with fm show False by (simp add: first_minimum_def flt_def)
  qed
  moreover have "i \<noteq> 2"
  proof
    assume "i = 2"
    with fm have "first_minimum [Fin 2, Fin 1, Fin 1] 2" by simp
    then show False by (simp add: first_minimum_def flt_def numeral_2_eq_2)
  qed
  ultimately have "i = 1" by blast
  then show ?thesis using i(2) by simp
qed

text \<open>
  C5 as stated, with a tolerance, fails. Two references whose distances to the query are
  \<open>1 + 2\<^sup>-\<^sup>5\<^sup>2\<close> and \<open>1\<close> differ by one unit in the last place of a double, the least
  difference two doubles near 1 can have; within a tolerance of that size both are at the
  minimum and the first in row order is label 0, but the code returns label 1, the
  strictly smaller distance.
\<close>

theorem tolerance_tie_counterexample:
  "nearest_poly line_dist 0 [(0::nat, 1 + 1 / 2 ^ 52), (1, - 1)] = Inr (Some 1)
   \<and> first_within_tolerance (1 / 2 ^ 52) (distance line_dist [(0::nat, 1 + 1 / 2 ^ 52), (1, - 1)] 0)
       = Some 0"
  by (simp add: nearest_poly_def distance_def line_dist_def idxmin_def fill_inf_def flt_def
      first_within_tolerance_def)

text \<open>
  C6 (as the code has it). With no reference geometry there is no distance to take the
  minimum of: \<^verbatim>\<open>idxmin\<close> raises ValueError on the empty series, for every query, in
  \<^const>\<open>nearest_poly\<close> and in \<^const>\<open>rename_nh_id\<close> alike, and no label or id is
  returned.
\<close>

theorem empty_references_raise:
  "nearest_poly gdist point [] = Inl ValueError
   \<and> rename_nh_id gdist centroid row_geometry [] = Inl ValueError"
  by (simp add: nearest_poly_def rename_nh_id_def distance_def idxmin_def)

text \<open>
  C6 as stated fails in the kind of the error. The source declares no exception class,
  and none of the exceptions it can raise is a \<^verbatim>\<open>NoReferenceGeometry\<close>: for a query at 0
  on the line and no reference, what is raised is the ValueError of pandas, the exception
  that \<^verbatim>\<open>int\<close> raises on an unparsable text as well.
\<close>

theorem empty_references_error_kind_counterexample:
  "nearest_poly line_dist 0 ([] :: (nat \<times> real) list) = Inl ValueError
   \<and> rename_nh_id line_dist (\<lambda>g. g) 0 ([] :: (nat \<times> real \<times> nat) list) = Inl ValueError"
  by (simp add: nearest_poly_def rename_nh_id_def distance_def idxmin_def)

subsection \<open>Derived metrics\<close>

lemma fmul_finf_100: "fmul rnd (finf s) (Fin 100) = finf s"
  by (simp add: fmul_def finf_def)

text \<open>
  C2 (as the code has it). The ratio is missing (NaN) when the value index or the rent index
  is missing. When the value index is zero (of either sign) and the rent index is a number,
  the ratio is NaN for a zero rent index and otherwise an infinity, whose sign is the
  product of the operands' signs: never a finite number, and missing only for rent zero.
  For a value index and a rent index that are finite and not zero it is the rounded
  quotient times 100, rounded.
\<close>

theorem ratio_of_zero_or_missing_value:
  "(city_ZHVI = NaN \<or> city_ZORI = NaN \<longrightarrow> city_RTV rnd city_ZORI city_ZHVI = NaN)
   \<and> (is_zero city_ZHVI \<and> city_ZORI \<noteq> NaN \<longrightarrow>
        city_RTV rnd city_ZORI city_ZHVI
          = (if is_zero city_ZORI then NaN else finf (negative city_ZORI \<noteq> negative city_ZHVI)))
   \<and> (\<not> is_zero city_ZHVI \<and> \<not> is_inf city_ZHVI \<and> city_ZHVI \<noteq> NaN
        \<and> \<not> is_zero city_ZORI \<and> \<not> is_inf city_ZORI \<and> city_ZORI \<noteq> NaN \<longrightarrow>
        city_RTV rnd city_ZORI city_ZHVI
          = fmul rnd (rnd (fval city_ZORI / fval city_ZHVI)) (Fin 100))"
proof (intro conjI impI)
  assume "city_ZHVI = NaN \<or> city_ZORI = NaN"
  then show "city_RTV rnd city_ZORI city_ZHVI = NaN"
    by (auto simp: city_RTV_def fdiv_def fmul_def)
next
  assume a: "is_zero city_ZHVI \<and> city_ZORI \<noteq> NaN"
  then have vn: "city_ZHVI \<noteq> NaN" "\<not> is_inf city_ZHVI" by (cases city_ZHVI; simp)+
  show "city_RTV rnd city_ZORI city_ZHVI
          = (if is_zero city_ZORI then NaN else finf (negative city_ZORI \<noteq> negative city_ZHVI))"
  proof (cases "is_zero city_ZORI")
    case True
    then have "\<not> is_inf city_ZORI" by (cases city_ZORI) simp_all
    then show ?thesis using a vn True by (simp add: city_RTV_def fdiv_def fmul_def)
  next
    case False
    then have "fdiv rnd city_ZORI city_ZHVI = finf (negative city_ZORI \<noteq> negative city_ZHVI)"
      using a vn by (simp add: fdiv_def)
    then show ?thesis using False by (simp add: city_RTV_def fmul_finf_100)
  qed
next
  assume "\<not> is_zero city_ZHVI \<and> \<not> is_inf city_ZHVI \<and> city_ZHVI \<noteq> NaN
        \<and> \<not> is_zero city_ZORI \<and> \<not> is_inf city_ZORI \<and> city_ZORI \<noteq> NaN"
  then show "city_RTV rnd city_ZORI city_ZHVI
          = fmul rnd (rnd (fval city_ZORI / fval city_ZHVI)) (Fin 100)"
    by (simp add: city_RTV_def fdiv_def)
qed

theorem ratio_of_zero_or_missing_value_witness:
  "city_RTV exact (Fin 1500) NaN = NaN
   \<and> city_RTV exact (Fin 1500) NegZero = NInf
   \<and> city_RTV exact (Fin 0) (Fin 0) = NaN
   \<and> city_RTV exact (Fin 1500) (Fin 300000) = Fin (1 / 2)"
proof -
  have 1: "city_RTV exact (Fin 1500) NaN = NaN"
    using ratio_of_zero_or_missing_value[of NaN "Fin 1500" exact] by simp
  have 2: "city_RTV exact (Fin 1500) NegZero = NInf"
    using ratio_of_zero_or_missing_value[of NegZero "Fin 1500" exact] by (simp add: finf_def)
  have 3: "city_RTV exact (Fin 0) (Fin 0) = NaN"
    using ratio_of_zero_or_missing_value[of "Fin 0" "Fin 0" exact] by simp
  have 4: "city_RTV exact (Fin 1500) (Fin 300000) = Fin (1 / 2)"
    using ratio_of_zero_or_missing_value[of "Fin 300000" "Fin 1500" exact]
    by (simp add: exact_def fmul_def)
  show ?thesis using 1 2 3 4 by simp
qed

text \<open>
  C2 as stated fails: a rent index of 1500 over a value index of 0 gives \<open>+inf\<close>, which
  pandas does not count as missing.
\<close>

theorem ratio_zero_value_counterexample:
  "city_RTV exact (Fin 1500) (Fin 0) = PInf
   \<and> city_RTV_column exact [Fin 1500, Fin 1200] [Fin 0, NaN] = [PInf, NaN]"
  by (simp add: city_RTV_column_def city_RTV_def fdiv_def fmul_def finf_def)

text \<open>
  C3 (as the code has it). The area in square miles is the planar area of the boundary,
  taken after reprojection to EPSG:3857, divided by 2.59e6: for a finite non-zero area
  \<open>a\<close>, the rounding of \<open>a / 2590000\<close>.
\<close>

theorem area_divided_by_rounded_constant:
  "area_sq_mi rnd to_crs area geometry = fdiv rnd (area (to_crs 3857 geometry)) (Fin 2590000)
   \<and> (area (to_crs 3857 geometry) = Fin a \<and> a \<noteq> 0 \<longrightarrow>
        area_sq_mi rnd to_crs area geometry = rnd (a / 2590000))"
  by (simp add: area_sq_mi_def fdiv_def)

theorem area_divided_by_rounded_constant_witness:
  "area_sq_mi exact keep_crs mile_square 1609.344 = Fin (2589988.110336 / 2590000)"
proof -
  have h: "mile_square (keep_crs 3857 1609.344) = Fin 2589988.110336
           \<and> (2589988.110336 :: real) \<noteq> 0"
    by (simp add: keep_crs_def mile_square_def)
  have "area_sq_mi exact keep_crs mile_square 1609.344 = exact (2589988.110336 / 2590000)"
    using area_divided_by_rounded_constant[of exact keep_crs mile_square "1609.344"
        "2589988.110336", THEN conjunct2, THEN mp, OF h] .
  then show ?thesis by (simp add: exact_def)
qed

text \<open>
  C3 as stated fails: a square of side 1609.344 m has a planar area of exactly
  2589988.110336 square metres, one square mile by the divisor of the claim; the code
  reports 2589988.110336 / 2590000 of a square mile.
\<close>

theorem area_exact_constant_counterexample:
  "area_sq_mi exact keep_crs mile_square 1609.344
     \<noteq> fdiv exact (mile_square (keep_crs 3857 1609.344)) (Fin 2589988.110336)
   \<and> fdiv exact (mile_square (keep_crs 3857 1609.344)) (Fin 2589988.110336) = Fin 1
   \<and> area_sq_mi exact keep_crs mile_square 1609.344 = Fin (2589988.110336 / 2590000)"
  by (simp add: area_sq_mi_def fdiv_def keep_crs_def mile_square_def exact_def)

subsection \<open>Dissolve\<close>

lemma set_present: "set (present ks) = {k. Some k \<in> set ks}"
  by (induction ks rule: present.induct) auto

text \<open>
  C10 (as the code has it). For a frame with at least one row whose \<^verbatim>\<open>nh_id\<close> is not
  missing, \<^const>\<open>group_and_union\<close> returns a frame (it does not raise) whose
  \<^verbatim>\<open>nh_id\<close> column holds every id that some row of the input has, each exactly once, in
  ascending order, and whose CRS is that of the input. Rows without an id are in no
  group.
\<close>

theorem dissolve_one_sorted_row_per_group:
  assumes "list_ex (\<lambda>r. fst r \<noteq> None) (features poly_gdf)"
  shows "\<exists>union_gdf. group_and_union unary_union poly_gdf = Inr union_gdf
           \<and> distinct (map fst (features union_gdf))
           \<and> set (map fst (features union_gdf)) = {k. Some k \<in> set (map fst (features poly_gdf))}
           \<and> sorted (map fst (features union_gdf))
           \<and> crs union_gdf = crs poly_gdf"
proof -
  let ?ks = "groupby_keys (features poly_gdf)"
  have sk: "set ?ks = {k. Some k \<in> set (map fst (features poly_gdf))}"
    by (simp add: groupby_keys_def set_present)
  obtain r where "r \<in> set (features poly_gdf)" "fst r \<noteq> None"
    using assms by (auto simp: list_ex_iff)
  then obtain k where "Some k \<in> set (map fst (features poly_gdf))"
    by (cases "fst r") force+
  then have "k \<in> set ?ks" unfolding sk by simp
  then have ne: "?ks \<noteq> []" by auto
  let ?out = "\<lparr>crs = crs poly_gdf,
               features = map (\<lambda>name. (name, unary_union (get_group (features poly_gdf) name))) ?ks\<rparr>"
  have r: "group_and_union unary_union poly_gdf = Inr ?out"
    using ne by (simp add: group_and_union_def Let_def)
  have m: "map fst (features ?out) = ?ks" by (simp add: comp_def)
  have d: "distinct ?ks" and so: "sorted ?ks"
    by (simp_all add: groupby_keys_def)
  have c: "crs ?out = crs poly_gdf" by simp
  have 1: "distinct (map fst (features ?out))" unfolding m by (rule d)
  have 2: "set (map fst (features ?out)) = {k. Some k \<in> set (map fst (features poly_gdf))}"
    unfolding m by (rule sk)
  have 3: "sorted (map fst (features ?out))" unfolding m by (rule so)
  show ?thesis by (rule exI[of _ ?out]) (intro conjI r 1 2 3 c)
qed

theorem dissolve_one_sorted_row_per_group_witness:
  "list_ex (\<lambda>r. fst r \<noteq> None) (features five_blocks)
   \<and> (\<exists>union_gdf. group_and_union concat five_blocks = Inr union_gdf
         \<and> distinct (map fst (features union_gdf))
         \<and> set (map fst (features union_gdf)) = {3, 5, 7}
         \<and> sorted (map fst (features union_gdf))
         \<and> crs union_gdf = Some 3857)"
proof -
  have ne: "list_ex (\<lambda>r. fst r \<noteq> None) (features five_blocks)"
    by (simp add: five_blocks_def)
  have s: "{k. Some k \<in> set (map fst (features five_blocks))} = {3, 5, 7}"
    by (auto simp: five_blocks_def)
  have c: "crs five_blocks = Some 3857" by (simp add: five_blocks_def)
  show ?thesis
    using dissolve_one_sorted_row_per_group[OF ne, of concat] ne unfolding s c by blast
qed

text \<open>
  C10 as stated fails: a frame whose one row has no \<^verbatim>\<open>nh_id\<close> has a row, but it has
  no group, and building the result raises ValueError; and of the five rows of
  \<^const>\<open>five_blocks\<close> the one without an id is in none of the three rows of the result.
\<close>

theorem dissolve_missing_id_counterexample:
  "features unassigned_block \<noteq> []
   \<and> group_and_union concat unassigned_block = Inl ValueError
   \<and> group_and_union concat five_blocks
       = Inr \<lparr>crs = Some 3857, features = [(3, [1, 4]), (5, [3]), (7, [0])]\<rparr>"
  by code_simp

subsection \<open>Population\<close>


















subsection \<open>The join engine\<close>













subsection \<open>The boundary join\<close>

lemma positions_from_absent: "k \<notin> set xs \<Longrightarrow> positions_from j xs k = []"
  by (induction xs arbitrary: j) auto

lemma positions_from_distinct:
  "distinct xs \<Longrightarrow> k \<in> set xs \<Longrightarrow> \<exists>t<length xs. xs ! t = k \<and> positions_from j xs k = [j + t]"
proof (induction xs arbitrary: j)
  case Nil
  then show ?case by simp
next
  case (Cons x xs)
  show ?case
  proof (cases "x = k")
    case True
    then have "k \<notin> set xs" using Cons.prems by simp
    then have "positions_from (Suc j) xs k = []" by (rule positions_from_absent)
    then show ?thesis using True by (intro exI[of _ 0]) simp
  next
    case False
    then have "k \<in> set xs" "distinct xs" using Cons.prems by auto
    from Cons.IH[OF this(2,1), of "Suc j"] obtain t where
      t: "t < length xs" "xs ! t = k" "positions_from (Suc j) xs k = [Suc j + t]" by blast
    then show ?thesis using False by (intro exI[of _ "Suc t"]) simp
  qed
qed

lemma inner_indexer_single_key:
  assumes d: "distinct nhs" and lg: "length gs = length nhs"
  shows "ks = drop i ids \<Longrightarrow>
     take_left (indexer_from HowInner i (map (\<lambda>v. [v]) ks) (map (\<lambda>v. [v]) nhs)) ids
       = filter (\<lambda>v. v \<in> set nhs) ks
     \<and> take_right (indexer_from HowInner i (map (\<lambda>v. [v]) ks) (map (\<lambda>v. [v]) nhs)) gs
       = map (\<lambda>v. the (map_of (zip nhs gs) v)) (filter (\<lambda>v. v \<in> set nhs) ks)"
proof (induction ks arbitrary: i)
  case Nil
  then show ?case by (simp add: take_left_def take_right_def)
next
  case (Cons k ks)
  let ?R = "map (\<lambda>v. [v]) nhs"
  have il: "i < length ids" using Cons.prems by (metis drop_eq_Nil2 list.distinct(1) not_le)
  have k: "ids ! i = k" and ks: "ks = drop (Suc i) ids"
    using Cons.prems il by (simp_all flip: Cons_nth_drop_Suc)
  note IH = Cons.IH[OF ks]
  have dR: "distinct ?R" using d by (simp add: distinct_map inj_on_def)
  show ?case
  proof (cases "k \<in> set nhs")
    case False
    then have "[k] \<notin> set ?R" by auto
    then have "positions_from 0 ?R [k] = []" by (rule positions_from_absent)
    then show ?thesis using IH False by simp
  next
    case True
    then have "[k] \<in> set ?R" by auto
    from positions_from_distinct[OF dR this, of 0] obtain t where
      t: "t < length nhs" "?R ! t = [k]" "positions_from 0 ?R [k] = [t]" by auto
    have nt: "nhs ! t = k" using t(1,2) by simp
    have "map_of (zip nhs gs) (nhs ! t) = Some (gs ! t)"
      using map_of_zip_nth[of nhs gs t] d lg t(1) by simp
    then have g: "the (map_of (zip nhs gs) k) = gs ! t" using nt by simp
    show ?thesis using IH True t(3) k g by (simp add: take_left_def take_right_def)
  qed
qed

lemma key_rows_single: "length c = n \<Longrightarrow> key_rows n [c] = map (\<lambda>v. [v]) c"
proof -
  assume l: "length c = n"
  have "map (\<lambda>v. [v]) c = map (\<lambda>v. [v]) (map ((!) c) [0..<length c])" by (simp only: map_nth)
  then show ?thesis using l by (simp add: key_rows_def comp_def)
qed

lemma distinct_no_new_duplicates: "distinct new \<Longrightarrow> \<not> new_duplicates old new"
proof -
  assume d: "distinct new"
  have "\<And>i. i < length new \<Longrightarrow> new ! i \<notin> set (take i new)"
  proof
    fix i assume i: "i < length new" and "new ! i \<in> set (take i new)"
    then obtain j where "j < i" "new ! j = new ! i"
      by (auto simp: in_set_conv_nth)
    then show False using d i by (simp add: nth_eq_iff_index_eq)
  qed
  then show ?thesis by (auto simp: new_duplicates_def list_ex_iff)
qed

lemma get_label_values_Inr:
  "get_label_values df k = Inr v \<Longrightarrow> \<exists>c. filter (\<lambda>c. fst c = k) (columns df) = [c] \<and> snd c = v"
  by (auto simp: get_label_values_def split: list.splits)

lemma get_label_values_wf:
  assumes "wf_frame df" "get_label_values df k = Inr v"
  shows "length v = nrows df"
proof -
  from get_label_values_Inr[OF assms(2)] obtain c where
    c: "filter (\<lambda>c. fst c = k) (columns df) = [c]" "snd c = v" by blast
  then have "c \<in> set (filter (\<lambda>c. fst c = k) (columns df))" by simp
  then have "c \<in> set (columns df)" by simp
  then show ?thesis using assms(1) c(2) by (auto simp: wf_frame_def list_all_iff)
qed


lemma in_set_mapI: "x \<in> set xs \<Longrightarrow> f x \<in> set (map f xs)"
  by simp

lemma inner_merge_boundaries:
  assumes wf: "wf_frame rtv" "wf_frame un"
    and lr: "distinct (labels rtv)"
    and lu: "labels un = [''geometry'', ''nh_id'']"
    and has: "''geometry'' \<in> set (labels rtv)"
    and hasnt: "''nh_id'' \<notin> set (labels rtv)" "''geometry_x'' \<notin> set (labels rtv)"
    and ids: "get_label_values rtv ''id'' = Inr ids"
    and nhs: "get_label_values un ''nh_id'' = Inr nh_ids" "distinct nh_ids"
    and gs: "get_label_values un ''geometry'' = Inr boundaries"
  shows "\<exists>idx. pd_merge HowInner rtv un [''id''] [''nh_id''] (''_x'', ''_y'')
           = Inr \<lparr>nrows = length idx,
                  columns =
                    map (\<lambda>c. (if fst c = ''geometry'' then ''geometry_x'' else fst c,
                              take_left idx (snd c))) (columns rtv)
                    @ [(''geometry_y'', take_right idx boundaries),
                       (''nh_id'', take_right idx nh_ids)]\<rparr>
         \<and> take_left idx ids = filter (\<lambda>v. v \<in> set nh_ids) ids
         \<and> take_right idx boundaries
             = map (\<lambda>v. the (map_of (zip nh_ids boundaries) v)) (filter (\<lambda>v. v \<in> set nh_ids) ids)"
proof -
  obtain c1 c2 where cu0: "columns un = [c1, c2]" "fst c1 = ''geometry''" "fst c2 = ''nh_id''"
    using lu by (auto simp: labels_def map_eq_Cons_conv)
  have cu: "columns un = [(''geometry'', boundaries), (''nh_id'', nh_ids)]"
    using cu0 nhs(1) gs by (cases c1; cases c2) (simp add: get_label_values_def)
  define idx where "idx = indexer_from HowInner 0 (key_rows (nrows rtv) [ids]) (key_rows (nrows un) [nh_ids])"
  have li: "length ids = nrows rtv" using get_label_values_wf[OF wf(1) ids] .
  have ln: "length nh_ids = nrows un" using get_label_values_wf[OF wf(2) nhs(1)] .
  have lb: "length boundaries = length nh_ids"
    using get_label_values_wf[OF wf(2) gs] ln by simp
  have idx': "idx = indexer_from HowInner 0 (map (\<lambda>v. [v]) ids) (map (\<lambda>v. [v]) nh_ids)"
    by (simp add: idx_def key_rows_single[OF li] key_rows_single[OF ln])
  have sel: "take_left idx ids = filter (\<lambda>v. v \<in> set nh_ids) ids
     \<and> take_right idx boundaries
         = map (\<lambda>v. the (map_of (zip nh_ids boundaries) v)) (filter (\<lambda>v. v \<in> set nh_ids) ids)"
    unfolding idx' using inner_indexer_single_key[OF nhs(2) lb, of ids 0 ids] by simp
  let ?tr = "filter (\<lambda>x. x = ''geometry'' \<or> x = ''nh_id'') (labels rtv)"
  have tr: "\<And>l. l \<in> set ?tr \<longleftrightarrow> l = ''geometry''" using has hasnt(1) by auto
  have trne: "?tr \<noteq> []" using tr by (metis empty_iff empty_set)
  have sx: "add_suffix ?tr ''_x'' = (\<lambda>l. if l = ''geometry'' then ''geometry_x'' else l)"
    unfolding add_suffix_def tr by auto
  have sy: "add_suffix ?tr ''_y'' = (\<lambda>l. if l = ''geometry'' then ''geometry_y'' else l)"
    unfolding add_suffix_def tr by auto
  have inj: "inj_on (\<lambda>l. if l = ''geometry'' then ''geometry_x'' else l) (set (labels rtv))"
    using hasnt(2) by (auto simp: inj_on_def)
  have dl: "distinct (map (add_suffix ?tr ''_x'') (labels rtv))"
    using lr inj by (simp add: sx distinct_map)
  have nl: "\<not> new_duplicates (labels rtv) (map (add_suffix ?tr ''_x'') (labels rtv))"
    using distinct_no_new_duplicates[OF dl] .
  have nr: "\<not> new_duplicates [''geometry'', ''nh_id''] (map (add_suffix ?tr ''_y'') [''geometry'', ''nh_id''])"
    by (rule distinct_no_new_duplicates) (simp add: sy)
  have mk: "merge_keys rtv un [(''id'', ''nh_id'')] = Inr ([ids], [nh_ids])"
    using ids nhs(1) by simp
  have "pd_merge HowInner rtv un [''id''] [''nh_id''] (''_x'', ''_y'')
           = Inr \<lparr>nrows = length idx,
                  columns =
                    map (\<lambda>c. (if fst c = ''geometry'' then ''geometry_x'' else fst c,
                              take_left idx (snd c))) (columns rtv)
                    @ [(''geometry_y'', take_right idx boundaries),
                       (''nh_id'', take_right idx nh_ids)]\<rparr>"
    using trne nl nr
    by (simp add: pd_merge_def ids nhs(1) cu Let_def sx sy idx_def)
  then show ?thesis using sel by blast
qed


lemma filter_pipeline:
  "filter P (map g (filter k (map h xs))) = map (\<lambda>c. g (h c)) (filter (\<lambda>c. P (g (h c)) \<and> k (h c)) xs)"
  by (induction xs) auto

text \<open>
  C1 (as the code has it). Let the neighbourhood frame be well formed with distinct
  labels, among them \<^verbatim>\<open>id\<close>, \<^verbatim>\<open>geometry\<close> and \<^verbatim>\<open>nearest_poly\<close> and none of
  \<^verbatim>\<open>nh_id\<close>, \<^verbatim>\<open>geometry_x\<close>, \<^verbatim>\<open>geometry_y\<close>, and let the boundary frame be as
  \<^const>\<open>group_and_union\<close> builds it (columns \<^verbatim>\<open>geometry\<close> and \<^verbatim>\<open>nh_id\<close>), the ids
  distinct on both sides. Then lines 305 to 310 raise nothing; the result holds exactly the
  records whose id is the \<^verbatim>\<open>nh_id\<close> of a boundary, in their order, each with the one
  boundary of that \<^verbatim>\<open>nh_id\<close> as its geometry. A record without a boundary is not in the
  result.
\<close>

theorem boundaries_attached_by_inner_join:
  assumes wf: "wf_frame rtv" "wf_frame un"
    and lr: "distinct (labels rtv)"
    and lu: "labels un = [''geometry'', ''nh_id'']"
    and has: "''geometry'' \<in> set (labels rtv)" "''nearest_poly'' \<in> set (labels rtv)"
    and hasnt: "''nh_id'' \<notin> set (labels rtv)" "''geometry_x'' \<notin> set (labels rtv)"
      "''geometry_y'' \<notin> set (labels rtv)"
    and ids: "get_label_values rtv ''id'' = Inr ids" "distinct ids"
    and nhs: "get_label_values un ''nh_id'' = Inr nh_ids" "distinct nh_ids"
    and gs: "get_label_values un ''geometry'' = Inr boundaries"
  shows "\<exists>out. attach_boundaries rtv un = Inr out
           \<and> get_label_values out ''id'' = Inr (filter (\<lambda>v. v \<in> set nh_ids) ids)
           \<and> get_label_values out ''geometry''
               = Inr (map (\<lambda>v. the (map_of (zip nh_ids boundaries) v))
                        (filter (\<lambda>v. v \<in> set nh_ids) ids))"
proof -
  from inner_merge_boundaries[OF wf lr lu has(1) hasnt(1,2) ids(1) nhs gs]
  obtain idx where
    pm: "pd_merge HowInner rtv un [''id''] [''nh_id''] (''_x'', ''_y'')
           = Inr \<lparr>nrows = length idx,
                  columns =
                    map (\<lambda>c. (if fst c = ''geometry'' then ''geometry_x'' else fst c,
                              take_left idx (snd c))) (columns rtv)
                    @ [(''geometry_y'', take_right idx boundaries),
                       (''nh_id'', take_right idx nh_ids)]\<rparr>"
    and tl: "take_left idx ids = filter (\<lambda>v. v \<in> set nh_ids) ids"
    and tr: "take_right idx boundaries
             = map (\<lambda>v. the (map_of (zip nh_ids boundaries) v)) (filter (\<lambda>v. v \<in> set nh_ids) ids)"
    by blast
  define h :: "string \<times> 'a option list \<Rightarrow> string \<times> 'a option list"
    where "h = (\<lambda>c. (if fst c = ''geometry'' then ''geometry_x'' else fst c, take_left idx (snd c)))"
  define keep1 :: "string \<times> 'a option list \<Rightarrow> bool"
    where "keep1 = (\<lambda>c. fst c \<notin> set [''nh_id'', ''nearest_poly''])"
  define keep2 :: "string \<times> 'a option list \<Rightarrow> bool"
    where "keep2 = (\<lambda>c. fst c \<notin> set [''geometry_x''])"
  define keep :: "string \<times> 'a option list \<Rightarrow> bool"
    where "keep = (\<lambda>c. keep1 c \<and> keep2 c)"
  define g :: "string \<times> 'a option list \<Rightarrow> string \<times> 'a option list"
    where "g = (\<lambda>c. (case map_of [(''geometry_y'', ''geometry'')] (fst c) of
                         None \<Rightarrow> fst c | Some n \<Rightarrow> n, snd c))"
  define B where "B = take_right idx boundaries"
  define N where "N = take_right idx nh_ids"
  define L where "L = columns rtv"
  have pm': "pd_merge HowInner rtv un [''id''] [''nh_id''] (''_x'', ''_y'')
               = Inr \<lparr>nrows = length idx,
                      columns = map h L @ [(''geometry_y'', B), (''nh_id'', N)]\<rparr>"
    using pm by (simp add: h_def B_def N_def L_def)
  have hfst: "\<And>l v. fst (h (l, v)) = (if l = ''geometry'' then ''geometry_x'' else l)"
    by (simp add: h_def)
  have np: "''nearest_poly'' \<in> set (map fst (map h L))"
  proof -
    from has(2) obtain v where v: "(''nearest_poly'', v) \<in> set L"
      by (auto simp: labels_def L_def)
    have "h (''nearest_poly'', v) \<in> set (map h L)" using in_set_mapI[OF v] .
    then have "fst (h (''nearest_poly'', v)) \<in> fst ` set (map h L)" by (rule imageI)
    then show ?thesis by (simp only: hfst set_map) simp
  qed
  have d1: "drop_columns \<lparr>nrows = length idx,
                      columns = map h L @ [(''geometry_y'', B), (''nh_id'', N)]\<rparr>
              [''nh_id'', ''nearest_poly'']
            = Inr \<lparr>nrows = length idx,
                   columns = filter keep1 (map h L) @ [(''geometry_y'', B)]\<rparr>"
  proof -
    have a: "\<not> list_ex (\<lambda>l. l \<notin> set (labels \<lparr>nrows = length idx,
                      columns = map h L @ [(''geometry_y'', B), (''nh_id'', N)]\<rparr>))
               [''nh_id'', ''nearest_poly'']"
      using np by (simp add: labels_def)
    have b: "filter (\<lambda>c. fst c \<notin> set [''nh_id'', ''nearest_poly''])
               (map h L @ [(''geometry_y'', B), (''nh_id'', N)])
             = filter keep1 (map h L) @ [(''geometry_y'', B)]"
      by (simp add: keep1_def)
    show ?thesis unfolding drop_columns_def using a b by simp
  qed
  have gx: "''geometry_x'' \<in> set (map fst (filter keep1 (map h L)))"
  proof -
    from has(1) obtain v where v: "(''geometry'', v) \<in> set L"
      by (auto simp: labels_def L_def)
    have m: "h (''geometry'', v) \<in> set (map h L)" using in_set_mapI[OF v] .
    have f: "fst (h (''geometry'', v)) = ''geometry_x''" by (simp add: hfst)
    have "keep1 (h (''geometry'', v))" by (simp add: keep1_def f)
    then have "h (''geometry'', v) \<in> set (filter keep1 (map h L))" using m by simp
    then have "fst (h (''geometry'', v)) \<in> fst ` set (filter keep1 (map h L))" by (rule imageI)
    then show ?thesis by (simp only: f set_map)
  qed
  have d2: "drop_columns \<lparr>nrows = length idx,
                   columns = filter keep1 (map h L) @ [(''geometry_y'', B)]\<rparr> [''geometry_x'']
            = Inr \<lparr>nrows = length idx,
                   columns = filter keep (map h L) @ [(''geometry_y'', B)]\<rparr>"
  proof -
    have a: "\<not> list_ex (\<lambda>l. l \<notin> set (labels \<lparr>nrows = length idx,
                   columns = filter keep1 (map h L) @ [(''geometry_y'', B)]\<rparr>))
               [''geometry_x'']"
      using gx by (simp add: labels_def)
    have "filter keep2 (filter keep1 (map h L)) = filter keep (map h L)"
      by (simp add: keep_def)
    then have b: "filter (\<lambda>c. fst c \<notin> set [''geometry_x''])
               (filter keep1 (map h L) @ [(''geometry_y'', B)])
             = filter keep (map h L) @ [(''geometry_y'', B)]"
      by (simp add: keep2_def)
    show ?thesis unfolding drop_columns_def using a b by simp
  qed
  define out where "out = \<lparr>nrows = length idx,
                           columns = map g (filter keep (map h L)) @ [(''geometry'', B)]\<rparr>"
  have ab: "attach_boundaries rtv un = Inr out"
    by (simp add: attach_boundaries_def pm' d1 d2 rename_columns_def out_def g_def)
  have gh: "\<And>l v. fst (g (h (l, v)))
              = (if l = ''geometry'' then ''geometry_x''
                 else if l = ''geometry_y'' then ''geometry'' else l)"
    by (simp add: g_def h_def)
  have kh: "\<And>l v. keep (h (l, v)) = (l \<noteq> ''geometry'' \<and> l \<noteq> ''nh_id'' \<and> l \<noteq> ''nearest_poly''
                                      \<and> l \<noteq> ''geometry_x'')"
    by (auto simp: keep_def keep1_def keep2_def h_def)
  from get_label_values_Inr[OF ids(1)] obtain c where
    c: "filter (\<lambda>c. fst c = ''id'') L = [c]" "snd c = ids" by (auto simp: L_def)
  have "c \<in> set (filter (\<lambda>c. fst c = ''id'') L)" using c(1) by simp
  then have fc: "fst c = ''id''" by simp
  have ghc: "g (h c) = (''id'', take_left idx ids)"
    using fc c(2) by (simp add: g_def h_def)
  have eq_id: "filter (\<lambda>c. fst (g (h c)) = ''id'' \<and> keep (h c)) L = filter (\<lambda>c. fst c = ''id'') L"
  proof (rule filter_cong[OF refl])
    fix x assume "x \<in> set L"
    obtain l v where x: "x = (l, v)" by (cases x)
    show "(fst (g (h x)) = ''id'' \<and> keep (h x)) = (fst x = ''id'')"
      unfolding x gh kh by auto
  qed
  have f_id: "filter (\<lambda>c. fst c = ''id'') (columns out) = [(''id'', take_left idx ids)]"
  proof -
    have "filter (\<lambda>c. fst c = ''id'') (map g (filter keep (map h L))) = map (\<lambda>c. g (h c)) [c]"
      unfolding filter_pipeline eq_id c(1) ..
    then show ?thesis by (simp add: out_def ghc)
  qed
  have r_id: "get_label_values out ''id'' = Inr (filter (\<lambda>v. v \<in> set nh_ids) ids)"
    using f_id tl by (simp add: get_label_values_def)
  have eq_g: "filter (\<lambda>c. fst (g (h c)) = ''geometry'' \<and> keep (h c)) L = []"
  proof -
    have "\<And>x. x \<in> set L \<Longrightarrow> \<not> (fst (g (h x)) = ''geometry'' \<and> keep (h x))"
    proof -
      fix x assume xin: "x \<in> set L"
      obtain l v where x: "x = (l, v)" by (cases x)
      have "l \<in> set (labels rtv)" using xin x by (force simp: labels_def L_def)
      then have "l \<noteq> ''geometry_y''" using hasnt(3) by auto
      then show "\<not> (fst (g (h x)) = ''geometry'' \<and> keep (h x))"
        unfolding x gh kh by auto
    qed
    then show ?thesis by (simp add: filter_empty_conv)
  qed
  have f_g: "filter (\<lambda>c. fst c = ''geometry'') (columns out) = [(''geometry'', B)]"
  proof -
    have "filter (\<lambda>c. fst c = ''geometry'') (map g (filter keep (map h L))) = map (\<lambda>c. g (h c)) []"
      unfolding filter_pipeline eq_g ..
    then show ?thesis by (simp add: out_def)
  qed
  have r_g: "get_label_values out ''geometry''
               = Inr (map (\<lambda>v. the (map_of (zip nh_ids boundaries) v))
                        (filter (\<lambda>v. v \<in> set nh_ids) ids))"
    using f_g tr by (simp add: get_label_values_def B_def)
  show ?thesis using ab r_id r_g by blast
qed


theorem boundaries_attached_by_inner_join_witness:
  "\<exists>out. attach_boundaries two_records one_boundary = Inr out
      \<and> get_label_values out ''id'' = Inr [Some ''1840021543'']
      \<and> get_label_values out ''geometry'' = Inr [Some ''POLYGON A'']"
proof -
  have 1: "wf_frame two_records" "wf_frame one_boundary"
    by (simp_all add: wf_frame_def two_records_def one_boundary_def)
  have 2: "distinct (labels two_records)" "labels one_boundary = [''geometry'', ''nh_id'']"
    by (simp_all add: labels_def two_records_def one_boundary_def)
  have 3: "''geometry'' \<in> set (labels two_records)" "''nearest_poly'' \<in> set (labels two_records)"
    by (simp_all add: labels_def two_records_def)
  have 4: "''nh_id'' \<notin> set (labels two_records)" "''geometry_x'' \<notin> set (labels two_records)"
    "''geometry_y'' \<notin> set (labels two_records)"
    by (simp_all add: labels_def two_records_def)
  have 5: "get_label_values two_records ''id'' = Inr [Some ''1840021543'', Some ''1840020290'']"
    "distinct [Some ''1840021543'', Some ''1840020290'']"
    by (simp_all add: get_label_values_def two_records_def)
  have 6: "get_label_values one_boundary ''nh_id'' = Inr [Some ''1840021543'']"
    "distinct [Some ''1840021543'']"
    by (simp_all add: get_label_values_def one_boundary_def)
  have 7: "get_label_values one_boundary ''geometry'' = Inr [Some ''POLYGON A'']"
    by (simp add: get_label_values_def one_boundary_def)
  show ?thesis
    using boundaries_attached_by_inner_join[OF 1 2 3 4 5 6 7] by simp
qed

text \<open>
  C1 as stated fails. Castro has no boundary (every block was nearest to Mission); the
  join returns a frame with the Mission record alone and raises nothing.
\<close>

theorem orphan_record_dropped_counterexample:
  "attach_boundaries two_records one_boundary
     = Inr \<lparr>nrows = 1,
            columns = [(''id'', [Some ''1840021543'']),
                       (''neighborhood'', [Some ''Mission'']),
                       (''geometry'', [Some ''POLYGON A''])]\<rparr>"
  by code_simp

end
